theory Spec2Isabelle
  imports Main "HOL-Library.Sublist"
begin

section \<open>Strings and references\<close>

text \<open>
  A branch name reaches the pipeline helpers as the Groovy reference
  \<^verbatim>\<open>env.BRANCH_NAME\<close>: it is \<^verbatim>\<open>null\<close> when the variable is not set. A reference is
  modelled as \<^typ>\<open>string option\<close>, with \<^term>\<open>None\<close> for \<^verbatim>\<open>null\<close> (and for
  \<^verbatim>\<open>undefined\<close> in the JavaScript files). Strings are lists of characters; the
  branch names of the specification are ASCII.
\<close>

text \<open>
  Groovy's \<^verbatim>\<open>v ?: d\<close> on a string reference, and JavaScript's \<^verbatim>\<open>v || d\<close>: both
  \<^verbatim>\<open>null\<close> and the empty string are false.
\<close>

definition elvis :: "string option \<Rightarrow> string \<Rightarrow> string" where
  "elvis v d = (case v of None \<Rightarrow> d | Some s \<Rightarrow> if s = [] then d else s)"

definition startsWith :: "string \<Rightarrow> string \<Rightarrow> bool" where
  "startsWith s p = prefix p s"

section \<open>The pipeline's helper functions\<close>

text \<open>The helpers at the end of the pipeline definition, each opening with
  \<^verbatim>\<open>branchName = branchName ?: 'unknown'\<close>.\<close>

definition getBranchEnvironment :: "string option \<Rightarrow> string" where
  "getBranchEnvironment bn =
     (let branchName = elvis bn ''unknown'' in
      if branchName = ''main'' \<or> branchName = ''master'' then ''production''
      else if branchName = ''develop'' then ''staging''
      else if startsWith branchName ''feature/'' then ''development''
      else if startsWith branchName ''hotfix/'' then ''hotfix''
      else ''development'')"

definition shouldDeploy :: "string option \<Rightarrow> string" where
  "shouldDeploy bn =
     (let branchName = elvis bn ''unknown'' in
      if branchName \<in> set [''develop''] \<or> startsWith branchName ''feature/''
      then ''true'' else ''false'')"

definition getBranchTimeout :: "string option \<Rightarrow> int" where
  "getBranchTimeout bn =
     (let branchName = elvis bn ''unknown'' in
      if branchName = ''main'' \<or> branchName = ''master'' then 60
      else if branchName = ''develop'' then 45
      else 30)"

definition getBranchBuildRetention :: "string option \<Rightarrow> string" where
  "getBranchBuildRetention bn =
     (let branchName = elvis bn ''unknown'' in
      if branchName = ''main'' \<or> branchName = ''master'' then ''50''
      else if branchName = ''develop'' then ''20''
      else ''10'')"

definition getBranchSlackChannel :: "string option \<Rightarrow> string" where
  "getBranchSlackChannel bn =
     (let branchName = elvis bn ''unknown'' in
      if branchName = ''main'' \<or> branchName = ''master'' then ''#production-alerts''
      else if branchName = ''develop'' then ''#staging-updates''
      else ''#development'')"

definition getBranchType :: "string option \<Rightarrow> string" where
  "getBranchType bn =
     (let branchName = elvis bn ''unknown'' in
      if branchName \<in> set [''main'', ''master''] then ''Production''
      else if branchName = ''develop'' then ''Staging''
      else if startsWith branchName ''feature/'' then ''Feature''
      else if startsWith branchName ''hotfix/'' then ''Hotfix''
      else if startsWith branchName ''release/'' then ''Release''
      else ''Unknown'')"

subsection \<open>Branch name validation\<close>

definition validPrefixes :: "string list" where
  "validPrefixes = [''main'', ''master'', ''develop'', ''feature/'', ''hotfix/'', ''release/'']"

fun join :: "string \<Rightarrow> string list \<Rightarrow> string" where
  "join sep [] = []"
| "join sep [x] = x"
| "join sep (x # y # ys) = x @ sep @ join sep (y # ys)"

text \<open>The warning sign U+26A0 U+FE0F that opens the warning line, in UTF-8.\<close>

definition warningSign :: string where
  "warningSign = [CHR 0xE2, CHR 0x9A, CHR 0xA0, CHR 0xEF, CHR 0xB8, CHR 0x8F]"

text \<open>\<^verbatim>\<open>validateBranchName\<close> returns nothing; its effect is the lines it echoes,
  which are the result here.\<close>

definition validateBranchName :: "string option \<Rightarrow> string list" where
  "validateBranchName bn =
     (let branchName = elvis bn ''unknown'';
          isValid = list_ex (\<lambda>it. startsWith branchName it) validPrefixes in
      if \<not> isValid then
        [warningSign @ '' Warning: Branch name '' @ [CHR 0x27] @ branchName @ [CHR 0x27]
           @ '' doesn'' @ [CHR 0x27] @ ''t follow naming conventions'',
         ''Expected prefixes: '' @ join '', '' validPrefixes]
      else [])"

subsection \<open>Docker tags\<close>

text \<open>The character class \<^verbatim>\<open>[^a-zA-Z0-9.-]\<close> of \<^verbatim>\<open>createDockerTag\<close> is the complement
  of \<open>tagChar\<close>. The replacement works character by character; on the ASCII names of
  the specification a character is one element of the list. (A character beyond ASCII
  is one character for \<^verbatim>\<open>replaceAll\<close> and several bytes of a list in UTF-8: these
  definitions say nothing about such names.)\<close>

definition tagChar :: "char \<Rightarrow> bool" where
  "tagChar c =
     (let n = (of_char c :: nat) in
      (97 \<le> n \<and> n \<le> 122) \<or> (65 \<le> n \<and> n \<le> 90) \<or> (48 \<le> n \<and> n \<le> 57)
      \<or> c = CHR ''.'' \<or> c = CHR ''-'')"

definition replaceAll_nonTag :: "string \<Rightarrow> string" where
  "replaceAll_nonTag s = map (\<lambda>c. if tagChar c then c else CHR ''-'') s"

definition toLowerChar :: "char \<Rightarrow> char" where
  "toLowerChar c =
     (let n = (of_char c :: nat) in
      if 65 \<le> n \<and> n \<le> 90 then char_of (n + 32) else c)"

text \<open>\<^verbatim>\<open>toLowerCase\<close> on the characters that are left after the replacement
  (letters, digits, dot and hyphen; outside the Turkic locales).\<close>

definition toLowerCase :: "string \<Rightarrow> string" where
  "toLowerCase s = map toLowerChar s"

text \<open>The build number is the text \<^verbatim>\<open>env.BUILD_NUMBER\<close> that the string template
  inserts.\<close>

definition createDockerTag :: "string option \<Rightarrow> string \<Rightarrow> string" where
  "createDockerTag bn buildNumber =
     (let branchName = elvis bn ''unknown'';
          cleanBranch = toLowerCase (replaceAll_nonTag branchName) in
      cleanBranch @ ''-'' @ buildNumber)"

subsection \<open>The derived record\<close>

text \<open>
  The values the pipeline derives from the branch name: \<^verbatim>\<open>TARGET_ENVIRONMENT\<close>,
  \<^verbatim>\<open>DEPLOY_ENABLED\<close> (tested as \<^verbatim>\<open>env.DEPLOY_ENABLED == 'true'\<close>) and
  \<^verbatim>\<open>SLACK_CHANNEL\<close> of the environment block, and \<^verbatim>\<open>branchTimeout\<close>,
  \<^verbatim>\<open>buildRetention\<close> and \<^verbatim>\<open>branchType\<close> of the stage "Environment Setup".
\<close>

record classification =
  branchType :: string
  targetEnvironment :: string
  autoDeployEligible :: bool
  buildTimeoutMinutes :: int
  buildRetention :: string
  notificationChannel :: string

definition classify :: "string option \<Rightarrow> classification" where
  "classify bn =
     \<lparr> branchType = getBranchType bn,
       targetEnvironment = getBranchEnvironment bn,
       autoDeployEligible = (shouldDeploy bn = ''true''),
       buildTimeoutMinutes = getBranchTimeout bn,
       buildRetention = getBranchBuildRetention bn,
       notificationChannel = getBranchSlackChannel bn \<rparr>"

text \<open>
  The \<^verbatim>\<open>when\<close> clause of the stage "Auto Deploy". The condition
  \<^verbatim>\<open>branch 'pattern'\<close> is evaluated by the pipeline engine, not by this repository:
  its matcher is the parameter \<open>branchMatches\<close>, applied to the pattern and to
  \<^verbatim>\<open>env.BRANCH_NAME\<close>.
\<close>

definition autoDeployWhen :: "(string \<Rightarrow> string option \<Rightarrow> bool) \<Rightarrow> string option \<Rightarrow> bool" where
  "autoDeployWhen branchMatches bn =
     (shouldDeploy bn = ''true'' \<and>
      (branchMatches ''develop'' bn \<or>
       (branchMatches ''feature/*'' bn \<and> bn \<noteq> Some ''feature/experimental'')))"

subsection \<open>The variant without the null guard\<close>

text \<open>
  The second pipeline definition of the repository has the same helpers without the
  line \<^verbatim>\<open>branchName = branchName ?: 'unknown'\<close>. There a method call on a
  \<^verbatim>\<open>null\<close> branch name raises, so these helpers return a sum; the helpers that only
  switch on the name call no method and cannot raise.
\<close>

datatype exn = NullPointerException

definition bindE :: "exn + 'a \<Rightarrow> ('a \<Rightarrow> exn + 'b) \<Rightarrow> exn + 'b" where
  "bindE r f = (case r of Inl e \<Rightarrow> Inl e | Inr v \<Rightarrow> f v)"

definition startsWith_ref :: "string option \<Rightarrow> string \<Rightarrow> exn + bool" where
  "startsWith_ref r p =
     (case r of None \<Rightarrow> Inl NullPointerException | Some s \<Rightarrow> Inr (startsWith s p))"

definition getBranchEnvironment_unguarded :: "string option \<Rightarrow> exn + string" where
  "getBranchEnvironment_unguarded branchName =
     (if branchName = Some ''main'' \<or> branchName = Some ''master'' then Inr ''production''
      else if branchName = Some ''develop'' then Inr ''staging''
      else bindE (startsWith_ref branchName ''feature/'') (\<lambda>isFeature.
        if isFeature then Inr ''development''
        else bindE (startsWith_ref branchName ''hotfix/'') (\<lambda>isHotfix.
          if isHotfix then Inr ''hotfix'' else Inr ''development'')))"

definition shouldDeploy_unguarded :: "string option \<Rightarrow> exn + string" where
  "shouldDeploy_unguarded branchName =
     (if branchName \<in> set [Some ''develop''] then Inr ''true''
      else bindE (startsWith_ref branchName ''feature/'') (\<lambda>isFeature.
        if isFeature then Inr ''true'' else Inr ''false''))"

definition getBranchTimeout_unguarded :: "string option \<Rightarrow> int" where
  "getBranchTimeout_unguarded branchName =
     (if branchName = Some ''main'' \<or> branchName = Some ''master'' then 60
      else if branchName = Some ''develop'' then 45
      else 30)"

definition getBranchBuildRetention_unguarded :: "string option \<Rightarrow> string" where
  "getBranchBuildRetention_unguarded branchName =
     (if branchName = Some ''main'' \<or> branchName = Some ''master'' then ''50''
      else if branchName = Some ''develop'' then ''20''
      else ''10'')"

definition getBranchSlackChannel_unguarded :: "string option \<Rightarrow> string" where
  "getBranchSlackChannel_unguarded branchName =
     (if branchName = Some ''main'' \<or> branchName = Some ''master'' then ''#production-alerts''
      else if branchName = Some ''develop'' then ''#staging-updates''
      else ''#development'')"

definition getBranchType_unguarded :: "string option \<Rightarrow> exn + string" where
  "getBranchType_unguarded branchName =
     (if branchName \<in> set [Some ''main'', Some ''master''] then Inr ''Production''
      else if branchName = Some ''develop'' then Inr ''Staging''
      else bindE (startsWith_ref branchName ''feature/'') (\<lambda>isFeature.
        if isFeature then Inr ''Feature''
        else bindE (startsWith_ref branchName ''hotfix/'') (\<lambda>isHotfix.
          if isHotfix then Inr ''Hotfix''
          else bindE (startsWith_ref branchName ''release/'') (\<lambda>isRelease.
            if isRelease then Inr ''Release'' else Inr ''Unknown''))))"

definition classify_unguarded :: "string option \<Rightarrow> exn + classification" where
  "classify_unguarded bn =
     bindE (getBranchEnvironment_unguarded bn) (\<lambda>env.
     bindE (shouldDeploy_unguarded bn) (\<lambda>deploy.
     bindE (getBranchType_unguarded bn) (\<lambda>ty.
       Inr \<lparr> branchType = ty,
             targetEnvironment = env,
             autoDeployEligible = (deploy = ''true''),
             buildTimeoutMinutes = getBranchTimeout_unguarded bn,
             buildRetention = getBranchBuildRetention_unguarded bn,
             notificationChannel = getBranchSlackChannel_unguarded bn \<rparr>)))"

section \<open>The demo server\<close>

text \<open>The server has its own \<^verbatim>\<open>getBranchEnvironment\<close>; it is applied to
  \<^verbatim>\<open>process.env.BRANCH_NAME || 'unknown'\<close>, a string.\<close>

definition getBranchEnvironment_app :: "string \<Rightarrow> string" where
  "getBranchEnvironment_app branch =
     (if branch = ''main'' \<or> branch = ''master'' then ''production''
      else if branch = ''develop'' then ''staging''
      else if startsWith branch ''feature/'' then ''development''
      else if startsWith branch ''hotfix/'' then ''hotfix''
      else ''unknown'')"

text \<open>The three constants the server computes when it starts.\<close>

record server_config =
  serverBranchName :: string
  serverBuildNumber :: string
  serverEnvironment :: string

definition serverConfig :: "string option \<Rightarrow> string option \<Rightarrow> server_config" where
  "serverConfig env_BRANCH_NAME env_BUILD_NUMBER =
     (let branchName = elvis env_BRANCH_NAME ''unknown'';
          buildNumber = elvis env_BUILD_NUMBER ''unknown'' in
      \<lparr> serverBranchName = branchName,
        serverBuildNumber = buildNumber,
        serverEnvironment = getBranchEnvironment_app branchName \<rparr>)"

datatype json = JString string | JObject "(string \<times> json) list"

record request =
  httpMethod :: string
  url :: string

text \<open>What the handler sends: the status and headers of \<^verbatim>\<open>writeHead\<close>, and the
  value that \<^verbatim>\<open>JSON.stringify\<close> serialises for \<^verbatim>\<open>end\<close>, with its indentation
  argument (0 when there is none).\<close>

record response =
  statusCode :: nat
  headers :: "(string \<times> string) list"
  body :: json
  indent :: nat

text \<open>The request handler. \<open>now\<close> is the text of
  \<^verbatim>\<open>new Date().toISOString()\<close> at the request.\<close>

definition handler :: "server_config \<Rightarrow> string \<Rightarrow> request \<Rightarrow> response" where
  "handler cfg now req =
     (let response = JObject
            [(''message'', JString ''Hello from Multi-Branch Pipeline Demo!''),
             (''branch'', JString (serverBranchName cfg)),
             (''build'', JString (serverBuildNumber cfg)),
             (''environment'', JString (serverEnvironment cfg)),
             (''timestamp'', JString now),
             (''endpoints'', JObject [(''health'', JString ''/health''),
                                      (''info'', JString ''/info'')])] in
      if url req = ''/health'' then
        \<lparr> statusCode = 200, headers = [(''Content-Type'', ''application/json'')],
          body = JObject [(''status'', JString ''healthy''),
                          (''branch'', JString (serverBranchName cfg)),
                          (''environment'', JString (serverEnvironment cfg))],
          indent = 0 \<rparr>
      else if url req = ''/info'' then
        \<lparr> statusCode = 200, headers = [(''Content-Type'', ''application/json'')],
          body = JObject [(''application'', JString ''multi-branch-demo''),
                          (''version'', JString ''1.0.0''),
                          (''branch'', JString (serverBranchName cfg)),
                          (''build'', JString (serverBuildNumber cfg)),
                          (''environment'', JString (serverEnvironment cfg))],
          indent = 0 \<rparr>
      else
        \<lparr> statusCode = 200, headers = [(''Content-Type'', ''application/json'')],
          body = response, indent = 2 \<rparr>)"

section \<open>The test script\<close>

record test_config =
  testCount :: nat
  configEnvironment :: string
  skipIntegrationTests :: bool

text \<open>The four entries of the object \<^verbatim>\<open>testConfig\<close>.\<close>

definition testConfig_main :: test_config where
  "testConfig_main =
     \<lparr> testCount = 15, configEnvironment = ''production'', skipIntegrationTests = False \<rparr>"

definition testConfig_develop :: test_config where
  "testConfig_develop =
     \<lparr> testCount = 12, configEnvironment = ''staging'', skipIntegrationTests = False \<rparr>"

definition testConfig_feature :: test_config where
  "testConfig_feature =
     \<lparr> testCount = 8, configEnvironment = ''development'', skipIntegrationTests = True \<rparr>"

definition testConfig_hotfix :: test_config where
  "testConfig_hotfix =
     \<lparr> testCount = 10, configEnvironment = ''hotfix'', skipIntegrationTests = False \<rparr>"

definition selectConfig :: "string \<Rightarrow> test_config" where
  "selectConfig branchName =
     (if branchName = ''main'' \<or> branchName = ''master'' then testConfig_main
      else if branchName = ''develop'' then testConfig_develop
      else if startsWith branchName ''hotfix/'' then testConfig_hotfix
      else testConfig_feature)"

text \<open>The decimal text of a number, as a template literal inserts it.\<close>

definition digitChar :: "nat \<Rightarrow> char" where
  "digitChar d = char_of (48 + d)"

function showNat :: "nat \<Rightarrow> string" where
  "showNat n = (if n < 10 then [digitChar n] else showNat (n div 10) @ [digitChar (n mod 10)])"
  by pat_completeness auto
termination
  by (relation "measure id") auto

declare showNat.simps [simp del]

text \<open>The signs that open the printed lines, in UTF-8: U+2705, U+1F517, U+1F389.\<close>

definition checkMark :: string where
  "checkMark = [CHR 0xE2, CHR 0x9C, CHR 0x85]"

definition linkSign :: string where
  "linkSign = [CHR 0xF0, CHR 0x9F, CHR 0x94, CHR 0x97]"

definition partySign :: string where
  "partySign = [CHR 0xF0, CHR 0x9F, CHR 0x8E, CHR 0x89]"

definition testLine :: "nat \<Rightarrow> nat \<Rightarrow> string" where
  "testLine n i = checkMark @ '' Test '' @ showNat i @ ''/'' @ showNat n @ '': PASSED''"

text \<open>The loop \<^verbatim>\<open>for (let i = 1; i <= config.testCount; i++)\<close>, from \<open>i\<close> on.\<close>

function testLoop :: "nat \<Rightarrow> nat \<Rightarrow> string list" where
  "testLoop i n = (if i \<le> n then testLine n i # testLoop (Suc i) n else [])"
  by pat_completeness auto
termination
  by (relation "measure (\<lambda>(i, n). Suc n - i)") auto

declare testLoop.simps [simp del]

text \<open>The four lines that the script logs when the integration tests are not
  skipped.\<close>

definition integrationLines :: "string list" where
  "integrationLines =
     [linkSign @ '' Running integration tests...'',
      checkMark @ '' Integration Test 1: API connectivity - PASSED'',
      checkMark @ '' Integration Test 2: Database connection - PASSED'',
      checkMark @ '' Integration Test 3: External service - PASSED'']"

text \<open>The script, as the list of the lines it logs.\<close>

definition runTests :: "string option \<Rightarrow> string list" where
  "runTests env_BRANCH_NAME =
     (let branchName = elvis env_BRANCH_NAME ''unknown'';
          config = selectConfig branchName in
      [''Running tests for branch: '' @ branchName,
       ''Test configuration for '' @ configEnvironment config @ '':'',
       ''- Test count: '' @ showNat (testCount config),
       ''- Integration tests: '' @
          (if \<not> skipIntegrationTests config then ''enabled'' else ''disabled'')]
      @ testLoop 1 (testCount config)
      @ (if \<not> skipIntegrationTests config then integrationLines else [])
      @ [partySign @ '' All tests passed for branch: '' @ branchName])"

subsection \<open>The specification's wording\<close>

text \<open>
  The tag as the specification words it, with nothing taken from the helper: the
  class [A-Za-z0-9.-] is the list of its 64 characters, lower case is a table of the
  26 letters, and the tag is the name after replacement and lowering, a hyphen and
  the run number.
\<close>

definition tagClass :: string where
  "tagClass = ''abcdefghijklmnopqrstuvwxyzABCDEFGHIJKLMNOPQRSTUVWXYZ0123456789.-''"

definition lowerOf :: "char \<Rightarrow> char" where
  "lowerOf c =
     (case map_of (zip ''ABCDEFGHIJKLMNOPQRSTUVWXYZ'' ''abcdefghijklmnopqrstuvwxyz'') c of
        None \<Rightarrow> c
      | Some l \<Rightarrow> l)"

definition sanitizeTag :: "string \<Rightarrow> string \<Rightarrow> string" where
  "sanitizeTag b n =
     map lowerOf (map (\<lambda>c. if c \<in> set tagClass then c else CHR ''-'') b) @ ''-'' @ n"

text \<open>A well-formed name as the specification words it: three exact names, three
  prefixes.\<close>

definition wellFormed :: "string \<Rightarrow> bool" where
  "wellFormed b =
     (b = ''main'' \<or> b = ''master'' \<or> b = ''develop'' \<or>
      startsWith b ''feature/'' \<or> startsWith b ''hotfix/'' \<or> startsWith b ''release/'')"

text \<open>The record of the specification's default rule.\<close>

definition defaultClassification :: classification where
  "defaultClassification =
     \<lparr> branchType = ''Unknown'',
       targetEnvironment = ''development'',
       autoDeployEligible = False,
       buildTimeoutMinutes = 30,
       buildRetention = ''10'',
       notificationChannel = ''#development'' \<rparr>"

text \<open>
  A line of the form "Test i/N: PASSED": the check mark U+2705, " Test ", one or more
  decimal digits, "/", one or more decimal digits, ": PASSED", and nothing else.
\<close>

fun stripPrefix :: "string \<Rightarrow> string \<Rightarrow> string option" where
  "stripPrefix [] s = Some s"
| "stripPrefix (p # ps) [] = None"
| "stripPrefix (p # ps) (c # cs) = (if p = c then stripPrefix ps cs else None)"

definition isDigit :: "char \<Rightarrow> bool" where
  "isDigit c = (c \<in> set ''0123456789'')"

definition isTestLine :: "string \<Rightarrow> bool" where
  "isTestLine l =
     (case stripPrefix ([CHR 0xE2, CHR 0x9C, CHR 0x85] @ '' Test '') l of
        None \<Rightarrow> False
      | Some r \<Rightarrow>
          takeWhile isDigit r \<noteq> [] \<and>
          (case stripPrefix ''/'' (dropWhile isDigit r) of
             None \<Rightarrow> False
           | Some r' \<Rightarrow>
               takeWhile isDigit r' \<noteq> [] \<and> dropWhile isDigit r' = '': PASSED''))"

text \<open>The lines "Test i/N: PASSED" for the numerals \<open>is\<close> and the numeral \<open>n\<close>, written
  out, and the decimal numerals of 1 to 15, the largest test count: a digit of 1 to
  9, then the digit 1 followed by a digit of 0 to 5.\<close>

definition passedLines :: "string \<Rightarrow> string list \<Rightarrow> string list" where
  "passedLines n is =
     map (\<lambda>i. [CHR 0xE2, CHR 0x9C, CHR 0x85] @ '' Test '' @ i @ ''/'' @ n @ '': PASSED'') is"

definition decimalNumerals :: "string list" where
  "decimalNumerals =
     map (\<lambda>d. [d]) ''123456789'' @ map (\<lambda>d. [CHR ''1'', d]) ''012345''"

text \<open>The three fixed integration test lines, written out.\<close>

definition threeIntegrationLines :: "string list" where
  "threeIntegrationLines =
     [[CHR 0xE2, CHR 0x9C, CHR 0x85] @ '' Integration Test 1: API connectivity - PASSED'',
      [CHR 0xE2, CHR 0x9C, CHR 0x85] @ '' Integration Test 2: Database connection - PASSED'',
      [CHR 0xE2, CHR 0x9C, CHR 0x85] @ '' Integration Test 3: External service - PASSED'']"

section \<open>Shared lemmas\<close>

lemmas helper_defs =
  getBranchType_def getBranchEnvironment_def shouldDeploy_def
  getBranchTimeout_def getBranchBuildRetention_def getBranchSlackChannel_def

lemmas unguarded_defs =
  getBranchType_unguarded_def getBranchEnvironment_unguarded_def
  shouldDeploy_unguarded_def getBranchTimeout_unguarded_def
  getBranchBuildRetention_unguarded_def getBranchSlackChannel_unguarded_def
  bindE_def startsWith_ref_def

lemma classify_not_wellFormed:
  "\<not> wellFormed b \<Longrightarrow> classify (Some b) = defaultClassification"
  by (simp add: wellFormed_def classify_def helper_defs elvis_def startsWith_def
        defaultClassification_def)

text \<open>The helper's character class and lower case are those of the specification, for
  each of the 256 characters.\<close>

lemma tagChar_tagClass: "\<forall>c::char. tagChar c = (c \<in> set tagClass)"
  by code_simp

lemma toLowerChar_lowerOf: "\<forall>c::char. toLowerChar c = lowerOf c"
  by code_simp

lemma createDockerTag_elvis:
  "createDockerTag bn n = sanitizeTag (elvis bn ''unknown'') n"
  using tagChar_tagClass toLowerChar_lowerOf
  by (simp add: createDockerTag_def sanitizeTag_def toLowerCase_def replaceAll_nonTag_def)

text \<open>The loop logs one line for each \<open>i\<close> from its start up to \<open>n\<close>.\<close>

lemma testLoop_map: "testLoop i n = map (testLine n) [i..<Suc n]"
proof (induction i n rule: testLoop.induct)
  case (1 i n)
  show ?case
  proof (cases "i \<le> n")
    case True
    then have "[i..<Suc n] = i # [Suc i..<Suc n]"
      by (simp add: upt_conv_Cons)
    with True 1 show ?thesis
      by (subst testLoop.simps) simp
  next
    case False
    then show ?thesis
      by (subst testLoop.simps) simp
  qed
qed

text \<open>The loop at the four test counts of the script, line by line.\<close>

lemma testLoop_15: "testLoop 1 15 = passedLines ''15'' (take 15 decimalNumerals)"
  by code_simp

lemma testLoop_12: "testLoop 1 12 = passedLines ''12'' (take 12 decimalNumerals)"
  by code_simp

lemma testLoop_10: "testLoop 1 10 = passedLines ''10'' (take 10 decimalNumerals)"
  by code_simp

lemma testLoop_8: "testLoop 1 8 = passedLines ''8'' (take 8 decimalNumerals)"
  by code_simp


lemma filter_isTestLine_passed:
  "filter isTestLine (passedLines ''15'' (take 15 decimalNumerals)) =
     passedLines ''15'' (take 15 decimalNumerals)"
  "filter isTestLine (passedLines ''12'' (take 12 decimalNumerals)) =
     passedLines ''12'' (take 12 decimalNumerals)"
  "filter isTestLine (passedLines ''10'' (take 10 decimalNumerals)) =
     passedLines ''10'' (take 10 decimalNumerals)"
  "filter isTestLine (passedLines ''8'' (take 8 decimalNumerals)) =
     passedLines ''8'' (take 8 decimalNumerals)"
  by code_simp+

lemma filter_three_passed:
  "filter (\<lambda>l. l \<in> set threeIntegrationLines)
     (passedLines ''15'' (take 15 decimalNumerals)) = []"
  "filter (\<lambda>l. l \<in> set threeIntegrationLines)
     (passedLines ''12'' (take 12 decimalNumerals)) = []"
  "filter (\<lambda>l. l \<in> set threeIntegrationLines)
     (passedLines ''10'' (take 10 decimalNumerals)) = []"
  "filter (\<lambda>l. l \<in> set threeIntegrationLines)
     (passedLines ''8'' (take 8 decimalNumerals)) = []"
  by code_simp+

lemma length_passed:
  "length (passedLines ''15'' (take 15 decimalNumerals)) = 15"
  "length (passedLines ''12'' (take 12 decimalNumerals)) = 12"
  "length (passedLines ''10'' (take 10 decimalNumerals)) = 10"
  "length (passedLines ''8'' (take 8 decimalNumerals)) = 8"
  by (simp_all add: passedLines_def decimalNumerals_def)

lemma filter_isTestLine_integration: "filter isTestLine integrationLines = []"
  by code_simp

lemma filter_three_integration:
  "filter (\<lambda>l. l \<in> set threeIntegrationLines) integrationLines = threeIntegrationLines"
  by code_simp

text \<open>The other lines of the script are neither test lines nor integration test
  lines, whatever the branch name in them.\<close>

lemma not_isTestLine_first: "c \<noteq> CHR 0xE2 \<Longrightarrow> \<not> isTestLine (c # cs)"
  by (simp add: isTestLine_def)

lemma not_three_first: "c \<noteq> CHR 0xE2 \<Longrightarrow> c # cs \<notin> set threeIntegrationLines"
  by (auto simp add: threeIntegrationLines_def)

text \<open>The lines of the script by the selected configuration.\<close>

lemma runTests_lines:
  "runTests bn =
     [''Running tests for branch: '' @ elvis bn ''unknown'',
      ''Test configuration for ''
         @ (configEnvironment (selectConfig (elvis bn ''unknown'')) @ '':''),
      ''- Test count: '' @ showNat (testCount (selectConfig (elvis bn ''unknown''))),
      ''- Integration tests: '' @
         (if skipIntegrationTests (selectConfig (elvis bn ''unknown''))
          then ''disabled'' else ''enabled'')]
     @ testLoop 1 (testCount (selectConfig (elvis bn ''unknown'')))
     @ (if skipIntegrationTests (selectConfig (elvis bn ''unknown''))
        then [] else integrationLines)
     @ [partySign @ '' All tests passed for branch: '' @ elvis bn ''unknown'']"
  by (simp add: runTests_def Let_def)

lemma selectConfig_elvis: "selectConfig (elvis (Some b) ''unknown'') = selectConfig b"
  by (simp add: elvis_def selectConfig_def startsWith_def)

lemma runTests_filter_test:
  "filter isTestLine (runTests (Some b)) =
     filter isTestLine (testLoop 1 (testCount (selectConfig b)))"
  unfolding runTests_lines selectConfig_elvis
  by (simp add: partySign_def not_isTestLine_first filter_isTestLine_integration
        del: One_nat_def)

lemma runTests_filter_three:
  "filter (\<lambda>l. l \<in> set threeIntegrationLines) (runTests (Some b)) =
     filter (\<lambda>l. l \<in> set threeIntegrationLines) (testLoop 1 (testCount (selectConfig b)))
     @ (if skipIntegrationTests (selectConfig b) then [] else threeIntegrationLines)"
  unfolding runTests_lines selectConfig_elvis
  by (simp add: partySign_def not_three_first filter_three_integration
        del: One_nat_def)

text \<open>What the script logs under each of the four configurations.\<close>

lemma runTests_main:
  assumes "selectConfig b = testConfig_main"
  shows "filter isTestLine (runTests (Some b)) =
           passedLines ''15'' (take 15 decimalNumerals)"
    and "filter (\<lambda>l. l \<in> set threeIntegrationLines) (runTests (Some b)) =
           threeIntegrationLines"
  unfolding runTests_filter_test runTests_filter_three assms
  by (simp_all add: testConfig_main_def testLoop_15 filter_isTestLine_passed
        filter_three_passed del: One_nat_def)

lemma runTests_develop:
  assumes "selectConfig b = testConfig_develop"
  shows "filter isTestLine (runTests (Some b)) =
           passedLines ''12'' (take 12 decimalNumerals)"
    and "filter (\<lambda>l. l \<in> set threeIntegrationLines) (runTests (Some b)) =
           threeIntegrationLines"
  unfolding runTests_filter_test runTests_filter_three assms
  by (simp_all add: testConfig_develop_def testLoop_12 filter_isTestLine_passed
        filter_three_passed del: One_nat_def)

lemma runTests_hotfix:
  assumes "selectConfig b = testConfig_hotfix"
  shows "filter isTestLine (runTests (Some b)) =
           passedLines ''10'' (take 10 decimalNumerals)"
    and "filter (\<lambda>l. l \<in> set threeIntegrationLines) (runTests (Some b)) =
           threeIntegrationLines"
  unfolding runTests_filter_test runTests_filter_three assms
  by (simp_all add: testConfig_hotfix_def testLoop_10 filter_isTestLine_passed
        filter_three_passed del: One_nat_def)

lemma runTests_feature:
  assumes "selectConfig b = testConfig_feature"
  shows "filter isTestLine (runTests (Some b)) =
           passedLines ''8'' (take 8 decimalNumerals)"
    and "filter (\<lambda>l. l \<in> set threeIntegrationLines) (runTests (Some b)) = []"
  unfolding runTests_filter_test runTests_filter_three assms
  by (simp_all add: testConfig_feature_def testLoop_8 filter_isTestLine_passed
        filter_three_passed del: One_nat_def)

lemma selectConfig_cases:
  "selectConfig b = testConfig_main \<or> selectConfig b = testConfig_develop \<or>
   selectConfig b = testConfig_hotfix \<or> selectConfig b = testConfig_feature"
  by (simp add: selectConfig_def)

lemma selectConfig_hotfix:
  "startsWith b ''hotfix/'' \<Longrightarrow> selectConfig b = testConfig_hotfix"
  by (auto simp add: selectConfig_def startsWith_def elim!: prefixE)

lemmas testConfig_defs =
  testConfig_main_def testConfig_develop_def testConfig_hotfix_def testConfig_feature_def

lemma filter_member_subset:
  "filter (\<lambda>l. l \<in> set ys) xs = ys \<Longrightarrow> set ys \<subseteq> set xs"
proof
  fix y
  assume eq: "filter (\<lambda>l. l \<in> set ys) xs = ys" and y: "y \<in> set ys"
  from y have "y \<in> set (filter (\<lambda>l. l \<in> set ys) xs)"
    by (simp only: eq)
  then show "y \<in> set xs"
    by simp
qed

lemma filter_member_empty:
  assumes "filter (\<lambda>l. l \<in> set ys) xs = []" and "ys \<noteq> []"
  shows "\<not> set ys \<subseteq> set xs"
proof
  assume sub: "set ys \<subseteq> set xs"
  from assms(2) obtain y where y: "y \<in> set ys"
    by (cases ys) auto
  with sub have "y \<in> set (filter (\<lambda>l. l \<in> set ys) xs)"
    by auto
  with assms(1) show False
    by simp
qed

lemma three_nonempty: "threeIntegrationLines \<noteq> []"
  by (simp add: threeIntegrationLines_def)

text \<open>The number of test lines and the presence of the integration test lines, for
  every name.\<close>

lemma runTests_counts:
  "length (filter isTestLine (runTests (Some b))) = testCount (selectConfig b) \<and>
   (set threeIntegrationLines \<subseteq> set (runTests (Some b))) =
     (\<not> skipIntegrationTests (selectConfig b))"
proof -
  consider (m) "selectConfig b = testConfig_main" | (d) "selectConfig b = testConfig_develop"
    | (h) "selectConfig b = testConfig_hotfix" | (f) "selectConfig b = testConfig_feature"
    using selectConfig_cases by blast
  then show ?thesis
  proof cases
    case m
    from runTests_main [OF m] show ?thesis
      by (simp add: m testConfig_main_def length_passed filter_member_subset)
  next
    case d
    from runTests_develop [OF d] show ?thesis
      by (simp add: d testConfig_develop_def length_passed filter_member_subset)
  next
    case h
    from runTests_hotfix [OF h] show ?thesis
      by (simp add: h testConfig_hotfix_def length_passed filter_member_subset)
  next
    case f
    from runTests_feature [OF f] show ?thesis
      by (simp add: f testConfig_feature_def length_passed filter_member_empty
            three_nonempty)
  qed
qed

lemma runTests_None: "runTests None = runTests (Some ''unknown'')"
  by (simp add: runTests_def elvis_def)

text \<open>The server's own environment function and the pipeline's differ on the names
  that neither lists: the server answers "unknown", the pipeline "development".\<close>

lemma getBranchEnvironment_app_release:
  "getBranchEnvironment_app ''release/2.0'' = ''unknown'' \<and>
   getBranchEnvironment (Some ''release/2.0'') = ''development''"
  by (simp add: getBranchEnvironment_app_def getBranchEnvironment_def elvis_def startsWith_def)

section \<open>Claims about the classifier\<close>

text \<open>
  C1 (as the code has it). For every branch name that starts with "feature/",
  \<open>shouldDeploy\<close> answers 'true', the name "feature/experimental" included, so the
  derived record says auto-deploy for all of them. The one exact name is excluded
  later, by the \<^verbatim>\<open>when\<close> clause of the stage "Auto Deploy": when the engine's
  pattern 'develop' does not match the name, the stage runs exactly if the engine's
  pattern 'feature/*' matches it and the name is not "feature/experimental".
\<close>

theorem feature_auto_deploy:
  assumes "startsWith b ''feature/''" and "\<not> branchMatches ''develop'' (Some b)"
  shows "shouldDeploy (Some b) = ''true'' \<and>
         autoDeployEligible (classify (Some b)) \<and>
         autoDeployWhen branchMatches (Some b) =
           (branchMatches ''feature/*'' (Some b) \<and> b \<noteq> ''feature/experimental'')"
  using assms
  by (auto simp add: classify_def shouldDeploy_def autoDeployWhen_def elvis_def
        startsWith_def)

theorem feature_auto_deploy_witness:
  "startsWith ''feature/experimental'' ''feature/'' \<and>
   autoDeployEligible (classify (Some ''feature/experimental'')) \<and>
   \<not> autoDeployWhen (\<lambda>p n. p = ''feature/*'') (Some ''feature/experimental'')"
proof -
  have h: "startsWith ''feature/experimental'' ''feature/''"
    by (simp add: startsWith_def)
  have n: "\<not> (\<lambda>p n. p = ''feature/*'') ''develop'' (Some ''feature/experimental'')"
    by simp
  show ?thesis
    using h feature_auto_deploy [of "''feature/experimental''" "\<lambda>p n. p = ''feature/*''", OF h n]
    by simp
qed

text \<open>C1 as the specification states it fails: the derived record of
  "feature/experimental" says auto-deploy.\<close>

theorem feature_experimental_counterexample:
  "shouldDeploy (Some ''feature/experimental'') = ''true'' \<and>
   autoDeployEligible (classify (Some ''feature/experimental'')) \<noteq> False"
  by (simp add: classify_def shouldDeploy_def elvis_def startsWith_def)

text \<open>
  C2. A branch name that is not "main", "master" or "develop" and starts with none of
  "feature/", "hotfix/", "release/" is classified as type Unknown, environment
  development, timeout 30 minutes, retention 10 builds, channel "#development", no
  auto-deploy.
\<close>

theorem classify_default_rule:
  assumes "b \<noteq> ''main''" and "b \<noteq> ''master''" and "b \<noteq> ''develop''"
    and "\<not> startsWith b ''feature/''" and "\<not> startsWith b ''hotfix/''"
    and "\<not> startsWith b ''release/''"
  shows "classify (Some b) =
           \<lparr> branchType = ''Unknown'', targetEnvironment = ''development'',
             autoDeployEligible = False, buildTimeoutMinutes = 30,
             buildRetention = ''10'', notificationChannel = ''#development'' \<rparr>"
  using assms
  by (simp add: classify_def helper_defs elvis_def startsWith_def)

theorem classify_default_rule_witness:
  "''bugfix/x'' \<noteq> ''main'' \<and> ''bugfix/x'' \<noteq> ''master'' \<and> ''bugfix/x'' \<noteq> ''develop'' \<and>
   \<not> startsWith ''bugfix/x'' ''feature/'' \<and> \<not> startsWith ''bugfix/x'' ''hotfix/'' \<and>
   \<not> startsWith ''bugfix/x'' ''release/'' \<and>
   classify (Some ''bugfix/x'') =
     \<lparr> branchType = ''Unknown'', targetEnvironment = ''development'',
       autoDeployEligible = False, buildTimeoutMinutes = 30,
       buildRetention = ''10'', notificationChannel = ''#development'' \<rparr>"
  using classify_default_rule [of "''bugfix/x''"]
  by (simp add: startsWith_def)

text \<open>
  C3. A branch name that starts with "release/" is classified as type Release,
  environment development (no environment is assigned to releases), timeout 30
  minutes, retention 10 builds, channel "#development", no auto-deploy.
\<close>

theorem classify_release:
  assumes "startsWith b ''release/''"
  shows "classify (Some b) =
           \<lparr> branchType = ''Release'', targetEnvironment = ''development'',
             autoDeployEligible = False, buildTimeoutMinutes = 30,
             buildRetention = ''10'', notificationChannel = ''#development'' \<rparr>"
  using assms
  by (auto simp add: classify_def helper_defs elvis_def startsWith_def elim!: prefixE)

theorem classify_release_witness:
  "startsWith ''release/2.0'' ''release/'' \<and>
   targetEnvironment (classify (Some ''release/2.0'')) = ''development'' \<and>
   buildTimeoutMinutes (classify (Some ''release/2.0'')) = 30 \<and>
   branchType (classify (Some ''release/2.0'')) = ''Release''"
proof -
  have h: "startsWith ''release/2.0'' ''release/''"
    by (simp add: startsWith_def)
  show ?thesis
    using h classify_release [OF h] by simp
qed

text \<open>
  C4. For every branch name and run number the tag is the name with every character
  outside [A-Za-z0-9.-] replaced by a hyphen, in lower case, followed by a hyphen and
  the run number; an empty or absent name is read as "unknown" first, as everywhere
  in the classifier. So "feature/My_Branch!" and 42 give "feature-my-branch--42".
\<close>

theorem createDockerTag_sanitizes:
  "createDockerTag (Some b) n = sanitizeTag (if b = [] then ''unknown'' else b) n \<and>
   createDockerTag None n = sanitizeTag ''unknown'' n \<and>
   createDockerTag (Some ''feature/My_Branch!'') ''42'' = ''feature-my-branch--42''"
proof -
  have "sanitizeTag ''feature/My_Branch!'' ''42'' = ''feature-my-branch--42''"
    by code_simp
  then show ?thesis
    by (simp add: createDockerTag_elvis elvis_def)
qed

text \<open>
  C5 (as the code has it). The validator warns exactly when the name starts with none
  of "main", "master", "develop", "feature/", "hotfix/", "release/": all six are
  prefixes. A name it warns about is malformed; a malformed name is not rejected and
  is classified by the default rule.
\<close>

theorem validateBranchName_warns_iff:
  "(validateBranchName (Some b) \<noteq> []) =
     (\<not> (startsWith b ''main'' \<or> startsWith b ''master'' \<or> startsWith b ''develop'' \<or>
         startsWith b ''feature/'' \<or> startsWith b ''hotfix/'' \<or> startsWith b ''release/''))
   \<and> (validateBranchName (Some b) \<noteq> [] \<longrightarrow> \<not> wellFormed b)
   \<and> (\<not> wellFormed b \<longrightarrow> classify (Some b) = defaultClassification)"
proof -
  have iff: "(validateBranchName (Some b) \<noteq> []) =
     (\<not> (startsWith b ''main'' \<or> startsWith b ''master'' \<or> startsWith b ''develop'' \<or>
         startsWith b ''feature/'' \<or> startsWith b ''hotfix/'' \<or> startsWith b ''release/''))"
    by (simp add: validateBranchName_def validPrefixes_def elvis_def startsWith_def)
  have "\<not> wellFormed b" if "validateBranchName (Some b) \<noteq> []"
    using that unfolding iff by (auto simp add: wellFormed_def startsWith_def)
  with iff classify_not_wellFormed show ?thesis
    by blast
qed

theorem validateBranchName_warns_iff_witness:
  "validateBranchName (Some ''bugfix/x'') \<noteq> [] \<and> \<not> wellFormed ''bugfix/x'' \<and>
   classify (Some ''bugfix/x'') = defaultClassification"
  using validateBranchName_warns_iff [of "''bugfix/x''"]
  by (simp add: startsWith_def)

text \<open>C5 as the specification states it fails: "mainline" is malformed and draws no
  warning.\<close>

theorem validateBranchName_mainline_counterexample:
  "\<not> wellFormed ''mainline'' \<and> validateBranchName (Some ''mainline'') = []"
  by (simp add: wellFormed_def validateBranchName_def validPrefixes_def elvis_def
        startsWith_def)

text \<open>C6. "main" and "master" have the same derived record.\<close>

theorem classify_main_master:
  "classify (Some ''main'') = classify (Some ''master'')"
  by (simp add: classify_def helper_defs elvis_def startsWith_def)

text \<open>
  C7. For every string, the empty one included, classification returns a record with
  every field set to one of its values. It raises nothing: the helpers without the
  null guard return the same record for every string.
\<close>

theorem classify_total:
  "classify_unguarded (Some s) = Inr (classify (Some s)) \<and>
   branchType (classify (Some s)) \<in>
     {''Production'', ''Staging'', ''Feature'', ''Hotfix'', ''Release'', ''Unknown''} \<and>
   targetEnvironment (classify (Some s)) \<in>
     {''production'', ''staging'', ''development'', ''hotfix''} \<and>
   buildTimeoutMinutes (classify (Some s)) \<in> {30, 45, 60} \<and>
   buildRetention (classify (Some s)) \<in> {''10'', ''20'', ''50''} \<and>
   notificationChannel (classify (Some s)) \<in>
     {''#production-alerts'', ''#staging-updates'', ''#development''}"
proof -
  have "classify_unguarded (Some s) = Inr (classify (Some s))"
    by (simp add: classify_unguarded_def classify_def unguarded_defs helper_defs
          elvis_def startsWith_def)
  moreover have "branchType (classify (Some s)) \<in>
     {''Production'', ''Staging'', ''Feature'', ''Hotfix'', ''Release'', ''Unknown''}"
    by (simp add: classify_def getBranchType_def Let_def)
  moreover have "targetEnvironment (classify (Some s)) \<in>
     {''production'', ''staging'', ''development'', ''hotfix''}"
    by (simp add: classify_def getBranchEnvironment_def Let_def)
  moreover have "buildTimeoutMinutes (classify (Some s)) \<in> {30, 45, 60}"
    by (simp add: classify_def getBranchTimeout_def Let_def)
  moreover have "buildRetention (classify (Some s)) \<in> {''10'', ''20'', ''50''}"
    by (simp add: classify_def getBranchBuildRetention_def Let_def)
  moreover have "notificationChannel (classify (Some s)) \<in>
     {''#production-alerts'', ''#staging-updates'', ''#development''}"
    by (simp add: classify_def getBranchSlackChannel_def Let_def)
  ultimately show ?thesis
    by blast
qed

text \<open>
  C8. The empty name has the derived record of "unknown", and so has no name at all;
  it is the record of the default rule, with environment development and type
  Unknown.
\<close>

theorem classify_empty_unknown:
  "classify (Some '''') = classify (Some ''unknown'') \<and>
   classify None = classify (Some ''unknown'') \<and>
   targetEnvironment (classify (Some '''')) = ''development'' \<and>
   branchType (classify (Some '''')) = ''Unknown'' \<and>
   classify (Some '''') = defaultClassification"
  by (simp add: classify_def helper_defs elvis_def startsWith_def
        defaultClassification_def)

section \<open>Claims about the test script and the server\<close>

text \<open>
  C9. For every branch name the script selects its configuration: 15 tests with the
  integration tests for "main" and "master", 12 with them for "develop", 10 with them
  for a name that starts with "hotfix/", and for every other name (the empty one
  too) the feature default, 8 tests without them; no name at all is read as
  "unknown". Of the lines it logs, those of the form "Test i/N: PASSED" are exactly
  the lines for i from 1 to the test count N, in this order, and the three
  integration test lines are logged, once each, exactly when the selected
  configuration does not skip them.
\<close>

theorem runTests_output:
  "(b = ''main'' \<or> b = ''master'' \<longrightarrow>
      selectConfig b =
        \<lparr> testCount = 15, configEnvironment = ''production'',
          skipIntegrationTests = False \<rparr> \<and>
      filter isTestLine (runTests (Some b)) =
        passedLines ''15'' (take 15 decimalNumerals) \<and>
      filter (\<lambda>l. l \<in> set threeIntegrationLines) (runTests (Some b)) =
        threeIntegrationLines) \<and>
   (b = ''develop'' \<longrightarrow>
      selectConfig b =
        \<lparr> testCount = 12, configEnvironment = ''staging'',
          skipIntegrationTests = False \<rparr> \<and>
      filter isTestLine (runTests (Some b)) =
        passedLines ''12'' (take 12 decimalNumerals) \<and>
      filter (\<lambda>l. l \<in> set threeIntegrationLines) (runTests (Some b)) =
        threeIntegrationLines) \<and>
   (startsWith b ''hotfix/'' \<longrightarrow>
      selectConfig b =
        \<lparr> testCount = 10, configEnvironment = ''hotfix'',
          skipIntegrationTests = False \<rparr> \<and>
      filter isTestLine (runTests (Some b)) =
        passedLines ''10'' (take 10 decimalNumerals) \<and>
      filter (\<lambda>l. l \<in> set threeIntegrationLines) (runTests (Some b)) =
        threeIntegrationLines) \<and>
   (b \<noteq> ''main'' \<and> b \<noteq> ''master'' \<and> b \<noteq> ''develop'' \<and> \<not> startsWith b ''hotfix/'' \<longrightarrow>
      selectConfig b =
        \<lparr> testCount = 8, configEnvironment = ''development'',
          skipIntegrationTests = True \<rparr> \<and>
      filter isTestLine (runTests (Some b)) =
        passedLines ''8'' (take 8 decimalNumerals) \<and>
      filter (\<lambda>l. l \<in> set threeIntegrationLines) (runTests (Some b)) = []) \<and>
   length (filter isTestLine (runTests (Some b))) = testCount (selectConfig b) \<and>
   (set threeIntegrationLines \<subseteq> set (runTests (Some b))) =
     (\<not> skipIntegrationTests (selectConfig b)) \<and>
   runTests None = runTests (Some ''unknown'')"
proof -
  have main: "selectConfig b = testConfig_main" if "b = ''main'' \<or> b = ''master''"
    using that by (auto simp add: selectConfig_def)
  have develop: "selectConfig b = testConfig_develop" if "b = ''develop''"
    using that by (simp add: selectConfig_def)
  have feature: "selectConfig b = testConfig_feature"
    if "b \<noteq> ''main'' \<and> b \<noteq> ''master'' \<and> b \<noteq> ''develop'' \<and> \<not> startsWith b ''hotfix/''"
    using that by (simp add: selectConfig_def)
  have c1: "selectConfig b =
        \<lparr> testCount = 15, configEnvironment = ''production'',
          skipIntegrationTests = False \<rparr> \<and>
      filter isTestLine (runTests (Some b)) =
        passedLines ''15'' (take 15 decimalNumerals) \<and>
      filter (\<lambda>l. l \<in> set threeIntegrationLines) (runTests (Some b)) =
        threeIntegrationLines" if "b = ''main'' \<or> b = ''master''"
    using runTests_main [OF main [OF that]] main [OF that]
    by (simp add: testConfig_main_def)
  have c2: "selectConfig b =
        \<lparr> testCount = 12, configEnvironment = ''staging'',
          skipIntegrationTests = False \<rparr> \<and>
      filter isTestLine (runTests (Some b)) =
        passedLines ''12'' (take 12 decimalNumerals) \<and>
      filter (\<lambda>l. l \<in> set threeIntegrationLines) (runTests (Some b)) =
        threeIntegrationLines" if "b = ''develop''"
    using runTests_develop [OF develop [OF that]] develop [OF that]
    by (simp add: testConfig_develop_def)
  have c3: "selectConfig b =
        \<lparr> testCount = 10, configEnvironment = ''hotfix'',
          skipIntegrationTests = False \<rparr> \<and>
      filter isTestLine (runTests (Some b)) =
        passedLines ''10'' (take 10 decimalNumerals) \<and>
      filter (\<lambda>l. l \<in> set threeIntegrationLines) (runTests (Some b)) =
        threeIntegrationLines" if "startsWith b ''hotfix/''"
    using runTests_hotfix [OF selectConfig_hotfix [OF that]] selectConfig_hotfix [OF that]
    by (simp add: testConfig_hotfix_def)
  have c4: "selectConfig b =
        \<lparr> testCount = 8, configEnvironment = ''development'',
          skipIntegrationTests = True \<rparr> \<and>
      filter isTestLine (runTests (Some b)) =
        passedLines ''8'' (take 8 decimalNumerals) \<and>
      filter (\<lambda>l. l \<in> set threeIntegrationLines) (runTests (Some b)) = []"
    if "b \<noteq> ''main'' \<and> b \<noteq> ''master'' \<and> b \<noteq> ''develop'' \<and> \<not> startsWith b ''hotfix/''"
    using runTests_feature [OF feature [OF that]] feature [OF that]
    by (simp add: testConfig_feature_def)
  from c1 c2 c3 c4 runTests_counts [of b] runTests_None show ?thesis
    by blast
qed

theorem runTests_output_witness:
  "startsWith ''hotfix/x'' ''hotfix/'' \<and>
   selectConfig ''hotfix/x'' =
     \<lparr> testCount = 10, configEnvironment = ''hotfix'', skipIntegrationTests = False \<rparr> \<and>
   filter isTestLine (runTests (Some ''hotfix/x'')) =
     passedLines ''10'' (take 10 decimalNumerals) \<and>
   hd (filter isTestLine (runTests (Some ''hotfix/x''))) =
     [CHR 0xE2, CHR 0x9C, CHR 0x85] @ '' Test 1/10: PASSED'' \<and>
   last (filter isTestLine (runTests (Some ''hotfix/x''))) =
     [CHR 0xE2, CHR 0x9C, CHR 0x85] @ '' Test 10/10: PASSED'' \<and>
   length (filter isTestLine (runTests (Some ''hotfix/x''))) = 10 \<and>
   set threeIntegrationLines \<subseteq> set (runTests (Some ''hotfix/x''))"
proof -
  have h: "startsWith ''hotfix/x'' ''hotfix/''"
    by (simp add: startsWith_def)
  show ?thesis
    using h runTests_output [of "''hotfix/x''"]
    by (simp add: passedLines_def decimalNumerals_def)
qed

text \<open>
  C10. The server answers every request with status 200 and the content type
  "application/json", whatever the method and the URL; a URL other than "/health" and
  "/info" gets the body of the root, with message, branch, build, environment,
  timestamp and endpoints. There is no other route.
\<close>

theorem handler_always_200:
  "statusCode (handler cfg now req) = 200 \<and>
   headers (handler cfg now req) = [(''Content-Type'', ''application/json'')] \<and>
   (url req \<noteq> ''/health'' \<and> url req \<noteq> ''/info'' \<longrightarrow>
      body (handler cfg now req) =
        JObject
          [(''message'', JString ''Hello from Multi-Branch Pipeline Demo!''),
           (''branch'', JString (serverBranchName cfg)),
           (''build'', JString (serverBuildNumber cfg)),
           (''environment'', JString (serverEnvironment cfg)),
           (''timestamp'', JString now),
           (''endpoints'', JObject [(''health'', JString ''/health''),
                                    (''info'', JString ''/info'')])])"
  by (simp add: handler_def Let_def)

theorem handler_always_200_witness:
  "url \<lparr> httpMethod = ''POST'', url = ''/missing'' \<rparr> \<noteq> ''/health'' \<and>
   url \<lparr> httpMethod = ''POST'', url = ''/missing'' \<rparr> \<noteq> ''/info'' \<and>
   statusCode (handler (serverConfig (Some ''develop'') (Some ''7'')) ''now''
       \<lparr> httpMethod = ''POST'', url = ''/missing'' \<rparr>) = 200 \<and>
   body (handler (serverConfig (Some ''develop'') (Some ''7'')) ''now''
       \<lparr> httpMethod = ''POST'', url = ''/missing'' \<rparr>) =
     JObject
       [(''message'', JString ''Hello from Multi-Branch Pipeline Demo!''),
        (''branch'', JString ''develop''),
        (''build'', JString ''7''),
        (''environment'', JString ''staging''),
        (''timestamp'', JString ''now''),
        (''endpoints'', JObject [(''health'', JString ''/health''),
                                 (''info'', JString ''/info'')])]"
  using handler_always_200 [of "serverConfig (Some ''develop'') (Some ''7'')" "''now''"
      "\<lparr> httpMethod = ''POST'', url = ''/missing'' \<rparr>"]
  by (simp add: serverConfig_def elvis_def getBranchEnvironment_app_def)

end
